theory Spec2Isabelle
  imports Main "HOL-Library.Word"
begin

section \<open>The logical cpu count stub of b0\<close>

text \<open>
  The source is \<^verbatim>\<open>src/b00/std/b00_stubs_cpu.c\<close>. It defines one C function,
  \<^verbatim>\<open>ocaml_b00_cpu_logical_count\<close>, three times: the preprocessor keeps the Darwin and
  POSIX body, the Windows body or the body for an unsupported platform. Each body is
  embedded below as a HOL function of the same name (with the branch as a suffix), the
  operating system's query being an argument.
\<close>

subsection \<open>C types\<close>

text \<open>
  The widths are those of the 64-bit targets: LP64 on Darwin and POSIX (\<^verbatim>\<open>int\<close> has
  32 bits, \<^verbatim>\<open>long\<close> 64) and LLP64 on Windows (\<^verbatim>\<open>DWORD\<close> is an unsigned 32-bit
  integer). \<^verbatim>\<open>intnat\<close> and \<^verbatim>\<open>value\<close> are the OCaml runtime's word-sized integer and
  its value type, 64 bits on both. A word carries no sign: \<^verbatim>\<open>int\<close>, \<^verbatim>\<open>long\<close> and
  \<^verbatim>\<open>intnat\<close> are read with \<open>sint\<close> and compared with \<open><s\<close>, \<^verbatim>\<open>DWORD\<close> is read with
  \<open>uint\<close> and compared with \<open><\<close>.
\<close>

type_synonym c_int = "32 word"
type_synonym c_long = "64 word"
type_synonym DWORD = "32 word"
type_synonym intnat = "64 word"
type_synonym ocaml_value = "64 word"

subsection \<open>The OCaml runtime's integer tagging\<close>

text \<open>
  Modelled from the spec: \<^verbatim>\<open>Val_int\<close> is not defined under src/; it reaches the file
  through \<^verbatim>\<open>b00_stubs.h\<close> from the OCaml runtime's \<^verbatim>\<open>caml/mlvalues.h\<close>. The spec
  (Design Notes, native bridge semantics) says what it is for: it marshals a native
  integer into a managed-runtime value. The runtime's header does it by tagging,
  \<^verbatim>\<open>#define Val_long(x) ((intnat) (((uintnat)(x) << 1)) + 1)\<close> with
  \<^verbatim>\<open>#define Val_int(x) Val_long(x)\<close>, and the OCaml program reads the integer back as
  \<^verbatim>\<open>#define Long_val(x) ((x) >> 1)\<close>, an arithmetic shift. The macro's cast of
  \<^verbatim>\<open>x\<close> to the word-sized type depends on the C type of \<^verbatim>\<open>x\<close>, so it is written where
  the macro is used: \<open>scast\<close> (sign extension) for an \<^verbatim>\<open>int\<close>, \<open>ucast\<close> (zero
  extension) for a \<^verbatim>\<open>DWORD\<close>.
\<close>

definition Val_long :: "intnat \<Rightarrow> ocaml_value" where
  "Val_long x = push_bit 1 x + 1"

definition Val_int :: "intnat \<Rightarrow> ocaml_value" where
  "Val_int x = Val_long x"

definition Long_val :: "ocaml_value \<Rightarrow> intnat" where
  "Long_val v = signed_drop_bit 1 v"

subsection \<open>Conditional compilation\<close>

text \<open>
  The three macros the file tests with \<^verbatim>\<open>defined\<close>, and the branch that
  \<^verbatim>\<open>#if\<close> / \<^verbatim>\<open>#elif\<close> / \<^verbatim>\<open>#else\<close> keeps. The \<^verbatim>\<open>#warning\<close> directive stands in the
  \<^verbatim>\<open>#else\<close> branch only; \<open>build_warnings\<close> is what the preprocessor prints.
\<close>

record cpp_defines =
  OCAML_B00_DARWIN :: bool
  OCAML_B00_POSIX :: bool
  OCAML_B00_WINDOWS :: bool

datatype branch = Darwin_and_POSIX | Windows | Unsupported

definition selected_branch :: "cpp_defines \<Rightarrow> branch" where
  "selected_branch d =
     (if OCAML_B00_DARWIN d \<or> OCAML_B00_POSIX d then Darwin_and_POSIX
      else if OCAML_B00_WINDOWS d then Windows
      else Unsupported)"

definition build_warnings :: "cpp_defines \<Rightarrow> string list" where
  "build_warnings d =
     (case selected_branch d of
        Darwin_and_POSIX \<Rightarrow> []
      | Windows \<Rightarrow> []
      | Unsupported \<Rightarrow>
          [''OCaml B00 library: unsupported platform, cpu count will always be 1''])"

subsection \<open>The operating system's queries\<close>

text \<open>
  \<^verbatim>\<open>sysconf\<close> and \<^verbatim>\<open>GetSystemInfo\<close> belong to the operating system, not to the
  repository, so they are arguments of the model: a query maps the state \<open>'s\<close> of the
  process and its operating system to what it reports and to the state it leaves.
  \<^verbatim>\<open>sysconf\<close> returns a \<^verbatim>\<open>long\<close>. \<^verbatim>\<open>GetSystemInfo\<close> fills the \<^verbatim>\<open>SYSTEM_INFO\<close> it is given
  (here: returns it); the stub reads one field of it, the others are the record's
  extension \<open>'i\<close>.
\<close>

record SYSTEM_INFO =
  dwNumberOfProcessors :: DWORD

record ('s, 'i) os_queries =
  sysconf_SC_NPROCESSORS_ONLN :: "'s \<Rightarrow> c_long \<times> 's"
  GetSystemInfo :: "'s \<Rightarrow> 'i SYSTEM_INFO_scheme \<times> 's"

subsection \<open>The three bodies of the stub\<close>

text \<open>
  Each body takes the OCaml argument \<^verbatim>\<open>unit\<close> and never reads it. The bodies have no
  operation that can fail: no pointer is followed, nothing is allocated, and the only
  arithmetic is the tagging, done on the unsigned type. So the model has no error value.
  The first body is marked \<^verbatim>\<open>CAMLprim\<close>, the other two \<^verbatim>\<open>CAMLPrim\<close>; both are taken
  as the runtime's export marker, which does not change what the function computes.

  Darwin and POSIX (lines 17 to 22). \<^verbatim>\<open>int n = sysconf (...)\<close> converts the \<^verbatim>\<open>long\<close> to
  an \<^verbatim>\<open>int\<close>: the low 32 bits, as every compiler of these targets does it. The test
  \<^verbatim>\<open>n < 0\<close> is a signed one.
\<close>

definition posix_guard :: "c_int \<Rightarrow> bool" where
  "posix_guard n = (n <s 0)"

definition ocaml_b00_cpu_logical_count_posix ::
  "('s \<Rightarrow> c_long \<times> 's) \<Rightarrow> ocaml_value \<Rightarrow> 's \<Rightarrow> ocaml_value \<times> 's" where
  "ocaml_b00_cpu_logical_count_posix sysconf_onln unit s =
     (case sysconf_onln s of
       (r, s') \<Rightarrow>
         let n = (ucast r :: c_int);
             n = (if posix_guard n then 1 else n)
         in (Val_int (scast n), s'))"

text \<open>
  Windows (lines 30 to 37). \<^verbatim>\<open>n\<close> is a \<^verbatim>\<open>DWORD\<close>, so in \<^verbatim>\<open>n < 0\<close> the constant is
  converted to the unsigned type and the comparison is an unsigned one.
\<close>

definition windows_guard :: "DWORD \<Rightarrow> bool" where
  "windows_guard n = (n < 0)"

definition ocaml_b00_cpu_logical_count_windows ::
  "('s \<Rightarrow> 'i SYSTEM_INFO_scheme \<times> 's) \<Rightarrow> ocaml_value \<Rightarrow> 's \<Rightarrow> ocaml_value \<times> 's"
  where
  "ocaml_b00_cpu_logical_count_windows get_system_info unit s =
     (case get_system_info s of
       (i, s') \<Rightarrow>
         let n = dwNumberOfProcessors i;
             n = (if windows_guard n then 1 else n)
         in (Val_int (ucast n), s'))"

text \<open>Unsupported platforms (lines 44 to 47).\<close>

definition ocaml_b00_cpu_logical_count_unsupported ::
  "ocaml_value \<Rightarrow> 's \<Rightarrow> ocaml_value \<times> 's" where
  "ocaml_b00_cpu_logical_count_unsupported unit s = (Val_int 1, s)"

text \<open>The function the build contains.\<close>

definition ocaml_b00_cpu_logical_count ::
  "cpp_defines \<Rightarrow> ('s, 'i) os_queries \<Rightarrow> ocaml_value \<Rightarrow> 's \<Rightarrow> ocaml_value \<times> 's"
  where
  "ocaml_b00_cpu_logical_count d os unit s =
     (case selected_branch d of
        Darwin_and_POSIX \<Rightarrow>
          ocaml_b00_cpu_logical_count_posix (sysconf_SC_NPROCESSORS_ONLN os) unit s
      | Windows \<Rightarrow> ocaml_b00_cpu_logical_count_windows (GetSystemInfo os) unit s
      | Unsupported \<Rightarrow> ocaml_b00_cpu_logical_count_unsupported unit s)"

text \<open>
  The integer the OCaml caller holds after the call: the returned value, untagged. The
  caller passes \<^verbatim>\<open>()\<close>, which is \<^verbatim>\<open>Val_int (0)\<close>.
\<close>

definition logical_cpu_count :: "cpp_defines \<Rightarrow> ('s, 'i) os_queries \<Rightarrow> 's \<Rightarrow> int" where
  "logical_cpu_count d os s =
     sint (Long_val (fst (ocaml_b00_cpu_logical_count d os (Val_int 0) s)))"

subsection \<open>What the claims speak of\<close>

text \<open>
  The value the operating system reports to the body the build contains, as the integer
  its C type denotes: the \<^verbatim>\<open>long\<close> that \<^verbatim>\<open>sysconf\<close> returns (signed), or the \<^verbatim>\<open>DWORD\<close>
  field \<^verbatim>\<open>dwNumberOfProcessors\<close> (unsigned). The unsupported body asks nothing.
\<close>

definition os_reported :: "cpp_defines \<Rightarrow> ('s, 'i) os_queries \<Rightarrow> 's \<Rightarrow> int option" where
  "os_reported d os s =
     (case selected_branch d of
        Darwin_and_POSIX \<Rightarrow> Some (sint (fst (sysconf_SC_NPROCESSORS_ONLN os s)))
      | Windows \<Rightarrow> Some (uint (dwNumberOfProcessors (fst (GetSystemInfo os s))))
      | Unsupported \<Rightarrow> None)"

text \<open>
  The Windows body as the refinement claim words it, with the defensive check (line 35)
  removed; it is compared with the body of the source below.
\<close>

definition ocaml_b00_cpu_logical_count_windows_unchecked ::
  "('s \<Rightarrow> 'i SYSTEM_INFO_scheme \<times> 's) \<Rightarrow> ocaml_value \<Rightarrow> 's \<Rightarrow> ocaml_value \<times> 's"
  where
  "ocaml_b00_cpu_logical_count_windows_unchecked get_system_info unit s =
     (case get_system_info s of
       (i, s') \<Rightarrow>
         let n = dwNumberOfProcessors i
         in (Val_int (ucast n), s'))"

subsection \<open>Concrete builds and a concrete host\<close>

text \<open>
  Four builds, one for each macro and one with none, and a host whose state is the pair
  of what \<^verbatim>\<open>sysconf\<close> reports and of the field \<^verbatim>\<open>dwNumberOfProcessors\<close>; its queries read
  the state and leave it as it is. The closed instances below run the stub on them.
\<close>

definition darwin_build :: cpp_defines where
  "darwin_build =
     \<lparr>OCAML_B00_DARWIN = True, OCAML_B00_POSIX = False, OCAML_B00_WINDOWS = False\<rparr>"

definition posix_build :: cpp_defines where
  "posix_build =
     \<lparr>OCAML_B00_DARWIN = False, OCAML_B00_POSIX = True, OCAML_B00_WINDOWS = False\<rparr>"

definition windows_build :: cpp_defines where
  "windows_build =
     \<lparr>OCAML_B00_DARWIN = False, OCAML_B00_POSIX = False, OCAML_B00_WINDOWS = True\<rparr>"

definition other_build :: cpp_defines where
  "other_build =
     \<lparr>OCAML_B00_DARWIN = False, OCAML_B00_POSIX = False, OCAML_B00_WINDOWS = False\<rparr>"

definition host_os :: "(c_long \<times> DWORD, unit) os_queries" where
  "host_os =
     \<lparr>sysconf_SC_NPROCESSORS_ONLN = (\<lambda>s. (fst s, s)),
      GetSystemInfo = (\<lambda>s. (\<lparr>dwNumberOfProcessors = snd s\<rparr>, s))\<rparr>"

text \<open>
  A second host, on which the query fails: its state is the \<^verbatim>\<open>errno\<close> of the process,
  and \<^verbatim>\<open>sysconf\<close> does not know the name it is asked for, so it returns \<open>- 1\<close> and sets
  \<^verbatim>\<open>errno\<close> to \<^verbatim>\<open>EINVAL\<close> (22), as POSIX has it. This is the report that the test of
  line 20 is there for.
\<close>

definition failing_os :: "(c_int, unit) os_queries" where
  "failing_os =
     \<lparr>sysconf_SC_NPROCESSORS_ONLN = (\<lambda>errno. (- 1, 22)),
      GetSystemInfo = (\<lambda>errno. (\<lparr>dwNumberOfProcessors = 1\<rparr>, errno))\<rparr>"

section \<open>Lemmas\<close>

subsection \<open>Tagging and the conversions\<close>

text \<open>
  Untagging a tagged integer gives it back when it has 63 bits at most; an \<^verbatim>\<open>int\<close> and
  a \<^verbatim>\<open>DWORD\<close> have. Storing a \<^verbatim>\<open>long\<close> in an \<^verbatim>\<open>int\<close> keeps its low 32 bits, read as a
  signed number; the \<^verbatim>\<open>int\<close> is 0 exactly when the \<^verbatim>\<open>long\<close> is a multiple of \<open>2 ^ 32\<close>.
\<close>

lemma sint_of_int_intnat:
  assumes "- (2 ^ 63) \<le> m" and "m < 2 ^ 63"
  shows "sint (word_of_int m :: intnat) = m"
  using assms by (simp add: sint_sbintrunc' signed_take_bit_int_eq_self)

lemma Val_long_of_int: "Val_long (word_of_int k) = word_of_int (2 * k + 1)"
  by (simp add: Val_long_def push_bit_eq_mult)

lemma sint_Long_val: "sint (Long_val v) = sint v div 2"
  by (simp add: Long_val_def sint_signed_drop_bit_eq drop_bit_eq_div)

lemma untag_of_int:
  assumes "- (2 ^ 62) \<le> k" and "k < 2 ^ 62"
  shows "sint (Long_val (Val_int (word_of_int k))) = k"
proof -
  from assms have "- (2 ^ 63) \<le> 2 * k + 1" and "2 * k + 1 < 2 ^ 63"
    by simp_all
  then have "sint (word_of_int (2 * k + 1) :: intnat) = 2 * k + 1"
    by (rule sint_of_int_intnat)
  then show ?thesis
    by (simp only: Val_int_def Val_long_of_int sint_Long_val)
qed

lemma untag_int: "sint (Long_val (Val_int (scast (n :: c_int)))) = sint n"
proof -
  have "- (2 ^ 31) \<le> sint n" and "sint n < 2 ^ 31"
    using sint_ge [of n] sint_lt [of n] by simp_all
  then have "- (2 ^ 62) \<le> sint n" and "sint n < 2 ^ 62"
    by simp_all
  then show ?thesis
    by (simp only: scast_eq untag_of_int)
qed

lemma untag_DWORD: "sint (Long_val (Val_int (ucast (v :: DWORD)))) = uint v"
proof -
  have "- (2 ^ 62) \<le> uint v"
    by (rule order_trans [OF _ uint_ge_0]) simp
  moreover have "uint v < 2 ^ 62"
    using uint_lt2p [of v] by simp
  ultimately show ?thesis
    by (simp only: ucast_eq untag_of_int)
qed

lemma long_to_int: "sint (ucast (r :: c_long) :: c_int) = signed_take_bit 31 (sint r)"
proof -
  have "sint (ucast r :: c_int) = signed_take_bit 31 (uint r)"
    by (simp only: ucast_eq sint_sbintrunc') simp
  also have "uint r = take_bit 64 (sint r)"
    by (simp add: take_bit_eq_mod uint_sint)
  finally show ?thesis
    by (simp add: signed_take_bit_take_bit)
qed

lemma signed_take_bit_31_eq_0_iff: "signed_take_bit 31 (N :: int) = 0 \<longleftrightarrow> 2 ^ 32 dvd N"
proof
  assume "signed_take_bit 31 N = 0"
  then have "take_bit (Suc 31) (signed_take_bit 31 N) = 0"
    by simp
  then have "take_bit 32 N = 0"
    by (simp only: take_bit_signed_take_bit) simp
  then show "2 ^ 32 dvd N"
    by (simp add: take_bit_eq_0_iff)
next
  assume "2 ^ 32 dvd N"
  then have "take_bit 32 N = 0"
    by (simp add: take_bit_eq_0_iff)
  moreover have "signed_take_bit 31 (take_bit 32 N) = signed_take_bit 31 N"
    by (simp add: signed_take_bit_take_bit)
  ultimately show "signed_take_bit 31 N = 0"
    by simp
qed

subsection \<open>The bodies\<close>

text \<open>What each body returns and the state it leaves.\<close>

lemma posix_returns:
  "fst (ocaml_b00_cpu_logical_count_posix q u s) =
     Val_int (scast (if posix_guard (ucast (fst (q s))) then 1 else ucast (fst (q s)) :: c_int))"
  by (simp add: ocaml_b00_cpu_logical_count_posix_def Let_def split: prod.split)

lemma posix_leaves: "snd (ocaml_b00_cpu_logical_count_posix q u s) = snd (q s)"
  by (simp add: ocaml_b00_cpu_logical_count_posix_def Let_def split: prod.split)

lemma windows_guard_never: "\<not> windows_guard n"
  by (simp add: windows_guard_def)

lemma windows_returns:
  "fst (ocaml_b00_cpu_logical_count_windows q u s) =
     Val_int (ucast (dwNumberOfProcessors (fst (q s))))"
  by (simp add: ocaml_b00_cpu_logical_count_windows_def windows_guard_never Let_def
      split: prod.split)

lemma windows_leaves: "snd (ocaml_b00_cpu_logical_count_windows q u s) = snd (q s)"
  by (simp add: ocaml_b00_cpu_logical_count_windows_def Let_def split: prod.split)

lemma logical_cpu_count_posix:
  assumes "selected_branch d = Darwin_and_POSIX"
  shows "logical_cpu_count d os s =
     (if signed_take_bit 31 (sint (fst (sysconf_SC_NPROCESSORS_ONLN os s))) < 0 then 1
      else signed_take_bit 31 (sint (fst (sysconf_SC_NPROCESSORS_ONLN os s))))"
proof -
  let ?n = "ucast (fst (sysconf_SC_NPROCESSORS_ONLN os s)) :: c_int"
  have "logical_cpu_count d os s =
      sint (Long_val (Val_int (scast (if posix_guard ?n then 1 else ?n))))"
    using assms by (simp add: logical_cpu_count_def ocaml_b00_cpu_logical_count_def posix_returns)
  also have "\<dots> = sint (if posix_guard ?n then 1 else ?n)"
    by (rule untag_int)
  also have "\<dots> = (if sint ?n < 0 then 1 else sint ?n)"
    by (simp add: posix_guard_def word_sless_alt)
  finally show ?thesis
    by (simp only: long_to_int)
qed

lemma logical_cpu_count_windows:
  assumes "selected_branch d = Windows"
  shows "logical_cpu_count d os s = uint (dwNumberOfProcessors (fst (GetSystemInfo os s)))"
  using assms
  by (simp add: logical_cpu_count_def ocaml_b00_cpu_logical_count_def windows_returns untag_DWORD)

lemma logical_cpu_count_unsupported:
  assumes "selected_branch d = Unsupported"
  shows "logical_cpu_count d os s = 1"
proof -
  have "sint (Long_val (Val_int (scast (1 :: c_int)))) = sint (1 :: c_int)"
    by (rule untag_int)
  then have "sint (Long_val (Val_int 1)) = 1"
    by simp
  with assms show ?thesis
    by (simp add: logical_cpu_count_def ocaml_b00_cpu_logical_count_def
        ocaml_b00_cpu_logical_count_unsupported_def)
qed

text \<open>What the query reports, build by build, and the concrete builds and host.\<close>

lemma os_reported_posix:
  assumes "selected_branch d = Darwin_and_POSIX"
  shows "os_reported d os s = Some (sint (fst (sysconf_SC_NPROCESSORS_ONLN os s)))"
  using assms by (simp add: os_reported_def)

lemma os_reported_windows:
  assumes "selected_branch d = Windows"
  shows "os_reported d os s = Some (uint (dwNumberOfProcessors (fst (GetSystemInfo os s))))"
  using assms by (simp add: os_reported_def)

lemma os_reported_unsupported:
  assumes "selected_branch d = Unsupported"
  shows "os_reported d os s = None"
  using assms by (simp add: os_reported_def)

lemma builds_select:
  "selected_branch darwin_build = Darwin_and_POSIX"
  "selected_branch posix_build = Darwin_and_POSIX"
  "selected_branch windows_build = Windows"
  "selected_branch other_build = Unsupported"
  by (simp_all add: selected_branch_def darwin_build_def posix_build_def windows_build_def
      other_build_def)

lemma host_os_reports:
  "sysconf_SC_NPROCESSORS_ONLN host_os (r, v) = (r, (r, v))"
  "GetSystemInfo host_os (r, v) = (\<lparr>dwNumberOfProcessors = v\<rparr>, (r, v))"
  by (simp_all add: host_os_def)

lemma unsupported_call:
  assumes "selected_branch d = Unsupported"
  shows "ocaml_b00_cpu_logical_count d os u s = (Val_int 1, s)"
  using assms
  by (simp add: ocaml_b00_cpu_logical_count_def ocaml_b00_cpu_logical_count_unsupported_def)

section \<open>The claims\<close>

text \<open>
  Claim C1, amended. For every value \<open>N\<close> the query may report on a supported platform,
  the count returned is at least 1 unless \<open>N\<close> is a multiple of \<open>2 ^ 32\<close>, and then it
  is 0. The multiples of \<open>2 ^ 32\<close> are the values whose low 32 bits, the ones the local
  \<^verbatim>\<open>n\<close> keeps, are all zero: 0 alone for a \<^verbatim>\<open>DWORD\<close>, and 0 first of all for the
  \<^verbatim>\<open>long\<close> of \<^verbatim>\<open>sysconf\<close>. The test \<^verbatim>\<open>n < 0\<close> lets 0 through.
\<close>

theorem logical_cpu_count_ge_1_unless_zero:
  assumes "os_reported d os s = Some N"
  shows "if 2 ^ 32 dvd N then logical_cpu_count d os s = 0
    else 1 \<le> logical_cpu_count d os s"
proof (cases "selected_branch d")
  case Darwin_and_POSIX
  with assms have N: "N = sint (fst (sysconf_SC_NPROCESSORS_ONLN os s))"
    by (simp add: os_reported_posix)
  define n where "n = signed_take_bit 31 N"
  have zero: "n = 0 \<longleftrightarrow> 2 ^ 32 dvd N"
    unfolding n_def by (rule signed_take_bit_31_eq_0_iff)
  have "logical_cpu_count d os s = (if n < 0 then 1 else n)"
    unfolding n_def N by (rule logical_cpu_count_posix [OF Darwin_and_POSIX])
  then show ?thesis
    unfolding zero [symmetric] by auto
next
  case Windows
  with assms have N: "N = uint (dwNumberOfProcessors (fst (GetSystemInfo os s)))"
    by (simp add: os_reported_windows)
  have "0 \<le> N" and "N < 2 ^ 32"
    using uint_lt2p [of "dwNumberOfProcessors (fst (GetSystemInfo os s))"]
    by (simp_all add: N)
  then have "2 ^ 32 dvd N \<longleftrightarrow> N = 0"
    by (auto dest: zdvd_imp_le)
  with \<open>0 \<le> N\<close> show ?thesis
    unfolding logical_cpu_count_windows [OF Windows] N [symmetric]
    by auto
next
  case Unsupported
  with assms show ?thesis
    by (simp add: os_reported_unsupported)
qed

text \<open>
  Claim C1 as written fails where the query reports 0: the POSIX body returns 0.
\<close>

theorem logical_cpu_count_ge_1_counterexample:
  "os_reported posix_build host_os (0, 0) = Some 0 \<and>
   \<not> 1 \<le> logical_cpu_count posix_build host_os (0, 0)"
  by (simp add: logical_cpu_count_posix os_reported_posix builds_select host_os_reports)

text \<open>
  The amended statement at work: a Windows host reporting 12 processors, and a Darwin
  host whose \<^verbatim>\<open>sysconf\<close> reports \<open>2 ^ 32\<close>.
\<close>

theorem logical_cpu_count_ge_1_unless_zero_witness:
  "os_reported windows_build host_os (0, 12) = Some 12 \<and>
   1 \<le> logical_cpu_count windows_build host_os (0, 12) \<and>
   os_reported darwin_build host_os (4294967296, 0) = Some 4294967296 \<and>
   logical_cpu_count darwin_build host_os (4294967296, 0) = 0"
proof -
  have w: "os_reported windows_build host_os (0, 12) = Some 12"
    by (simp add: os_reported_windows builds_select host_os_reports)
  have p: "os_reported darwin_build host_os (4294967296, 0) = Some 4294967296"
    by (simp add: os_reported_posix builds_select host_os_reports)
  show ?thesis
    using w p
      logical_cpu_count_ge_1_unless_zero [OF w]
      logical_cpu_count_ge_1_unless_zero [OF p]
    by simp
qed

text \<open>
  Claim C2. A positive count \<open>N\<close> reported by the query is returned as it is. The
  counts are those a system can report: on Windows every value of the \<^verbatim>\<open>DWORD\<close>, on
  Darwin and POSIX the values of the \<^verbatim>\<open>int\<close> that line 19 receives the count in, that
  is \<open>N < 2 ^ 31\<close>.
\<close>

theorem logical_cpu_count_positive_in_range:
  assumes "os_reported d os s = Some N" and "0 < N"
    and "N < 2 ^ 31 \<or> selected_branch d = Windows"
  shows "logical_cpu_count d os s = N"
proof (cases "selected_branch d")
  case Darwin_and_POSIX
  with assms have "N = sint (fst (sysconf_SC_NPROCESSORS_ONLN os s))" and "N < 2 ^ 31"
    by (simp_all add: os_reported_posix)
  with \<open>0 < N\<close> show ?thesis
    by (simp add: logical_cpu_count_posix [OF Darwin_and_POSIX] signed_take_bit_int_eq_self)
next
  case Windows
  with assms show ?thesis
    by (simp add: os_reported_windows logical_cpu_count_windows)
next
  case Unsupported
  with assms show ?thesis
    by (simp add: os_reported_unsupported)
qed

text \<open>
  The largest counts: \<open>2 ^ 31 - 1\<close> on POSIX and \<open>2 ^ 32 - 1\<close> on Windows.
\<close>

theorem logical_cpu_count_positive_in_range_witness:
  "os_reported posix_build host_os (2147483647, 0) = Some 2147483647 \<and>
   logical_cpu_count posix_build host_os (2147483647, 0) = 2147483647 \<and>
   os_reported windows_build host_os (0, 4294967295) = Some 4294967295 \<and>
   logical_cpu_count windows_build host_os (0, 4294967295) = 4294967295"
proof -
  have p: "os_reported posix_build host_os (2147483647, 0) = Some 2147483647"
    by (simp add: os_reported_posix builds_select host_os_reports)
  have w: "os_reported windows_build host_os (0, 4294967295) = Some 4294967295"
    by (simp add: os_reported_windows builds_select host_os_reports)
  show ?thesis
    using p w
      logical_cpu_count_positive_in_range [OF p]
      logical_cpu_count_positive_in_range [OF w]
    by (simp add: builds_select)
qed

text \<open>
  Claim C3. When the query reports a negative value \<open>N\<close>, the count returned is exactly
  1, for every negative value of the \<^verbatim>\<open>int\<close> that line 19 receives the report in, that
  is \<open>- (2 ^ 31) \<le> N\<close>; \<open>- 1\<close>, the one negative value \<^verbatim>\<open>sysconf\<close> returns, is among
  them. The count returned is never negative, so \<open>N\<close> is not handed to the caller. The
  call cannot fail: the stub is a total function with no error value. (A \<^verbatim>\<open>DWORD\<close> is
  never negative, so the hypothesis is met on Darwin and POSIX only.)
\<close>

theorem logical_cpu_count_negative_in_range:
  assumes "os_reported d os s = Some N" and "N < 0"
  shows "0 \<le> logical_cpu_count d os s \<and>
    (- (2 ^ 31) \<le> N \<longrightarrow> logical_cpu_count d os s = 1)"
proof (cases "selected_branch d")
  case Darwin_and_POSIX
  with assms have N: "N = sint (fst (sysconf_SC_NPROCESSORS_ONLN os s))"
    by (simp add: os_reported_posix)
  define n where "n = signed_take_bit 31 N"
  have count: "logical_cpu_count d os s = (if n < 0 then 1 else n)"
    unfolding n_def N by (rule logical_cpu_count_posix [OF Darwin_and_POSIX])
  have "- (2 ^ 31) \<le> N \<Longrightarrow> n = N"
    using \<open>N < 0\<close> unfolding n_def by (simp add: signed_take_bit_int_eq_self)
  with \<open>N < 0\<close> show ?thesis
    unfolding count by auto
next
  case Windows
  with assms have "N = uint (dwNumberOfProcessors (fst (GetSystemInfo os s)))"
    by (simp add: os_reported_windows)
  with \<open>N < 0\<close> show ?thesis
    by simp
next
  case Unsupported
  with assms show ?thesis
    by (simp add: os_reported_unsupported)
qed

text \<open>
  The statement at \<open>- 1\<close>, the error value of \<^verbatim>\<open>sysconf\<close>, and at the least \<^verbatim>\<open>int\<close>.
\<close>

theorem logical_cpu_count_negative_in_range_witness:
  "os_reported posix_build host_os (- 1, 0) = Some (- 1) \<and>
   logical_cpu_count posix_build host_os (- 1, 0) = 1 \<and>
   os_reported darwin_build host_os (- 2147483648, 0) = Some (- 2147483648) \<and>
   logical_cpu_count darwin_build host_os (- 2147483648, 0) = 1"
proof -
  have a: "os_reported posix_build host_os (- 1, 0) = Some (- 1)"
    by (simp add: os_reported_posix builds_select host_os_reports)
  have b: "os_reported darwin_build host_os (- 2147483648, 0) = Some (- 2147483648)"
    by (simp add: os_reported_posix builds_select host_os_reports)
  show ?thesis
    using a b
      logical_cpu_count_negative_in_range [OF a]
      logical_cpu_count_negative_in_range [OF b]
    by simp
qed

text \<open>
  Claim C4. In a build that defines none of the three macros, the call returns the
  tagged 1 and leaves the state as it was, whatever the queries would report and
  whatever the state is, so the count is 1; and the preprocessor prints the warning of
  the \<^verbatim>\<open>#warning\<close> directive. The limitation shows in the build log, the call itself
  signals nothing.
\<close>

theorem unsupported_returns_1_and_warns:
  assumes "\<not> OCAML_B00_DARWIN d" and "\<not> OCAML_B00_POSIX d" and "\<not> OCAML_B00_WINDOWS d"
  shows "ocaml_b00_cpu_logical_count d os u s = (Val_int 1, s) \<and>
    logical_cpu_count d os s = 1 \<and>
    build_warnings d =
      [''OCaml B00 library: unsupported platform, cpu count will always be 1'']"
proof -
  from assms have sel: "selected_branch d = Unsupported"
    by (simp add: selected_branch_def)
  then have "build_warnings d =
      [''OCaml B00 library: unsupported platform, cpu count will always be 1'']"
    by (simp add: build_warnings_def)
  with sel show ?thesis
    by (simp add: unsupported_call logical_cpu_count_unsupported)
qed

text \<open>A build with no macro, on a host with 64 processors.\<close>

theorem unsupported_returns_1_and_warns_witness:
  "ocaml_b00_cpu_logical_count other_build host_os (Val_int 0) (64, 64) =
     (Val_int 1, (64, 64)) \<and>
   logical_cpu_count other_build host_os (64, 64) = 1 \<and>
   build_warnings other_build =
     [''OCaml B00 library: unsupported platform, cpu count will always be 1'']"
  using unsupported_returns_1_and_warns [of other_build host_os "Val_int 0" "(64, 64)"]
  by (simp add: other_build_def)

text \<open>
  Claim C5. The test of line 35 compares a \<^verbatim>\<open>DWORD\<close>, an unsigned value, with 0: it is
  false for every value of the field \<^verbatim>\<open>dwNumberOfProcessors\<close>, so the assignment
  \<^verbatim>\<open>n = 1\<close> is never reached and line 35 leaves \<^verbatim>\<open>n\<close> as it was read.
\<close>

theorem windows_guard_unreachable:
  "\<not> windows_guard (dwNumberOfProcessors i) \<and>
   (if windows_guard (dwNumberOfProcessors i) then 1 else dwNumberOfProcessors i) =
     dwNumberOfProcessors i"
  by (simp add: windows_guard_never)

text \<open>
  Claim C6. The value returned is a function of what the query reports: two calls of the
  same build, in any two states in which the query reports the same count (and with any
  arguments), return the same value.
\<close>

theorem same_report_same_value:
  assumes "os_reported d os s1 = os_reported d os s2"
  shows "fst (ocaml_b00_cpu_logical_count d os u1 s1) =
    fst (ocaml_b00_cpu_logical_count d os u2 s2)"
proof (cases "selected_branch d")
  case Darwin_and_POSIX
  with assms have "sint (fst (sysconf_SC_NPROCESSORS_ONLN os s1)) =
      sint (fst (sysconf_SC_NPROCESSORS_ONLN os s2))"
    by (simp add: os_reported_posix)
  then have "fst (sysconf_SC_NPROCESSORS_ONLN os s1) = fst (sysconf_SC_NPROCESSORS_ONLN os s2)"
    by (rule signed_word_eqI)
  with Darwin_and_POSIX show ?thesis
    by (simp add: ocaml_b00_cpu_logical_count_def posix_returns)
next
  case Windows
  with assms have "uint (dwNumberOfProcessors (fst (GetSystemInfo os s1))) =
      uint (dwNumberOfProcessors (fst (GetSystemInfo os s2)))"
    by (simp add: os_reported_windows)
  then have "dwNumberOfProcessors (fst (GetSystemInfo os s1)) =
      dwNumberOfProcessors (fst (GetSystemInfo os s2))"
    by (rule word_uint_eqI)
  with Windows show ?thesis
    by (simp add: ocaml_b00_cpu_logical_count_def windows_returns)
next
  case Unsupported
  then show ?thesis
    by (simp add: unsupported_call)
qed

text \<open>Two states of the host that differ, but not in what \<^verbatim>\<open>sysconf\<close> reports.\<close>

theorem same_report_same_value_witness:
  "os_reported posix_build host_os (6, 1) = os_reported posix_build host_os (6, 2) \<and>
   fst (ocaml_b00_cpu_logical_count posix_build host_os (Val_int 0) (6, 1)) =
   fst (ocaml_b00_cpu_logical_count posix_build host_os (Val_int 0) (6, 2))"
proof -
  have same: "os_reported posix_build host_os (6, 1) = os_reported posix_build host_os (6, 2)"
    by (simp add: os_reported_posix builds_select host_os_reports)
  from same same_report_same_value [OF same] show ?thesis
    by (rule conjI)
qed

text \<open>
  Claim C7, amended. The call has no effect of its own on the state: the state it leaves
  is the state its one query leaves, that of \<^verbatim>\<open>sysconf\<close> in the Darwin and POSIX body,
  that of \<^verbatim>\<open>GetSystemInfo\<close> in the Windows body, and the state as it was in an
  unsupported build. So the call leaves the state unchanged whenever its query does.
\<close>

theorem call_effect_is_query_effect:
  "snd (ocaml_b00_cpu_logical_count d os u s) =
     (case selected_branch d of
        Darwin_and_POSIX \<Rightarrow> snd (sysconf_SC_NPROCESSORS_ONLN os s)
      | Windows \<Rightarrow> snd (GetSystemInfo os s)
      | Unsupported \<Rightarrow> s)"
proof (cases "selected_branch d")
  case Darwin_and_POSIX
  then show ?thesis
    by (simp add: ocaml_b00_cpu_logical_count_def posix_leaves)
next
  case Windows
  then show ?thesis
    by (simp add: ocaml_b00_cpu_logical_count_def windows_leaves)
next
  case Unsupported
  then show ?thesis
    by (simp add: unsupported_call)
qed

text \<open>
  Claim C7 as written fails on the host whose \<^verbatim>\<open>sysconf\<close> fails: the call returns the
  count 1 and leaves \<^verbatim>\<open>errno\<close> at 22 where it was 0.
\<close>

theorem call_changes_errno_counterexample:
  "logical_cpu_count posix_build failing_os 0 = 1 \<and>
   snd (ocaml_b00_cpu_logical_count posix_build failing_os (Val_int 0) 0) = 22 \<and>
   snd (ocaml_b00_cpu_logical_count posix_build failing_os (Val_int 0) 0) \<noteq> 0"
proof -
  have "sysconf_SC_NPROCESSORS_ONLN failing_os 0 = (- 1, 22)"
    by (simp add: failing_os_def)
  then show ?thesis
    by (simp add: logical_cpu_count_posix builds_select ocaml_b00_cpu_logical_count_def
        posix_leaves)
qed

text \<open>
  Claim C8. When the query reports 8 the count is 8, when it reports 1 the count is 1,
  and in an unsupported build the count is 1 for every host and state.
\<close>

theorem logical_cpu_count_scenarios:
  "(os_reported d os s = Some 8 \<longrightarrow> logical_cpu_count d os s = 8) \<and>
   (os_reported d os s = Some 1 \<longrightarrow> logical_cpu_count d os s = 1) \<and>
   (selected_branch d = Unsupported \<longrightarrow> logical_cpu_count d os s = 1)"
proof (intro conjI impI)
  assume "os_reported d os s = Some 8"
  then show "logical_cpu_count d os s = 8"
    by (cases "selected_branch d")
      (simp_all add: os_reported_def logical_cpu_count_posix logical_cpu_count_windows)
next
  assume "os_reported d os s = Some 1"
  then show "logical_cpu_count d os s = 1"
    by (cases "selected_branch d")
      (simp_all add: os_reported_def logical_cpu_count_posix logical_cpu_count_windows)
next
  assume "selected_branch d = Unsupported"
  then show "logical_cpu_count d os s = 1"
    by (rule logical_cpu_count_unsupported)
qed

text \<open>
  The scenarios on the host: 8 processors on POSIX and on Windows, 1 on Darwin, and an
  unsupported build on a host with 8.
\<close>

theorem logical_cpu_count_scenarios_witness:
  "os_reported posix_build host_os (8, 0) = Some 8 \<and>
   logical_cpu_count posix_build host_os (8, 0) = 8 \<and>
   os_reported windows_build host_os (0, 8) = Some 8 \<and>
   logical_cpu_count windows_build host_os (0, 8) = 8 \<and>
   os_reported darwin_build host_os (1, 0) = Some 1 \<and>
   logical_cpu_count darwin_build host_os (1, 0) = 1 \<and>
   selected_branch other_build = Unsupported \<and>
   logical_cpu_count other_build host_os (8, 8) = 1"
proof -
  have a: "os_reported posix_build host_os (8, 0) = Some 8"
    and b: "os_reported windows_build host_os (0, 8) = Some 8"
    and c: "os_reported darwin_build host_os (1, 0) = Some 1"
    and e: "selected_branch other_build = Unsupported"
    by (simp_all add: os_reported_def builds_select host_os_reports)
  show ?thesis
    using a b c e
      logical_cpu_count_scenarios [of posix_build host_os "(8, 0)"]
      logical_cpu_count_scenarios [of windows_build host_os "(0, 8)"]
      logical_cpu_count_scenarios [of darwin_build host_os "(1, 0)"]
      logical_cpu_count_scenarios [of other_build host_os "(8, 8)"]
    by simp
qed

text \<open>
  Claim C9. In the Darwin and POSIX body, 1 is substituted exactly when the reported
  value \<open>N\<close> is negative: every non-negative \<open>N\<close> is returned unchanged, so a reported
  0 gives 0. The values are those of the \<^verbatim>\<open>int\<close> \<^verbatim>\<open>n\<close> that line 19 receives the report
  in, from \<open>- (2 ^ 31)\<close> to \<open>2 ^ 31 - 1\<close>.
\<close>

theorem posix_substitutes_negative_only:
  assumes "selected_branch d = Darwin_and_POSIX" and "os_reported d os s = Some N"
    and "- (2 ^ 31) \<le> N" and "N < 2 ^ 31"
  shows "logical_cpu_count d os s = (if N < 0 then 1 else N)"
proof -
  from assms(1,2) have "N = sint (fst (sysconf_SC_NPROCESSORS_ONLN os s))"
    by (simp add: os_reported_posix)
  moreover from assms(3,4) have "signed_take_bit 31 N = N"
    by (simp add: signed_take_bit_int_eq_self)
  ultimately show ?thesis
    by (simp only: logical_cpu_count_posix [OF assms(1)])
qed

text \<open>The statement at 0, at \<open>- 1\<close> and at 16.\<close>

theorem posix_substitutes_negative_only_witness:
  "selected_branch darwin_build = Darwin_and_POSIX \<and>
   os_reported darwin_build host_os (0, 0) = Some 0 \<and>
   logical_cpu_count darwin_build host_os (0, 0) = 0 \<and>
   os_reported darwin_build host_os (- 1, 0) = Some (- 1) \<and>
   logical_cpu_count darwin_build host_os (- 1, 0) = 1 \<and>
   os_reported darwin_build host_os (16, 0) = Some 16 \<and>
   logical_cpu_count darwin_build host_os (16, 0) = 16"
proof -
  note sel = builds_select(1)
  have a: "os_reported darwin_build host_os (0, 0) = Some 0"
    and b: "os_reported darwin_build host_os (- 1, 0) = Some (- 1)"
    and c: "os_reported darwin_build host_os (16, 0) = Some 16"
    by (simp_all add: os_reported_posix sel host_os_reports)
  show ?thesis
    using sel a b c
      posix_substitutes_negative_only [OF sel a]
      posix_substitutes_negative_only [OF sel b]
      posix_substitutes_negative_only [OF sel c]
    by simp
qed

text \<open>
  Claim C10. The Windows body and the same body without its check return the same value
  and leave the same state, for every query, argument and state; and the count the
  caller reads is the value of the field \<^verbatim>\<open>dwNumberOfProcessors\<close>, unchanged, 0 included.
\<close>

theorem windows_equals_unchecked:
  "ocaml_b00_cpu_logical_count_windows q u s =
     ocaml_b00_cpu_logical_count_windows_unchecked q u s \<and>
   sint (Long_val (fst (ocaml_b00_cpu_logical_count_windows q u s))) =
     uint (dwNumberOfProcessors (fst (q s)))"
proof
  show "ocaml_b00_cpu_logical_count_windows q u s =
      ocaml_b00_cpu_logical_count_windows_unchecked q u s"
    by (cases "q s")
      (simp add: ocaml_b00_cpu_logical_count_windows_def
        ocaml_b00_cpu_logical_count_windows_unchecked_def windows_guard_never)
  show "sint (Long_val (fst (ocaml_b00_cpu_logical_count_windows q u s))) =
      uint (dwNumberOfProcessors (fst (q s)))"
    by (simp only: windows_returns untag_DWORD)
qed

end
